theory Spec2Isabelle
  imports Complex_Main
begin

section \<open>Python values, exceptions and observable effects\<close>

text \<open>
  The example scripts of simple-traces pass JSON-like Python values around. A value is
  \<open>None\<close>, a bool, an int (unbounded), a float (a finite double, given by the rational it
  denotes), a str (its UTF-8 bytes), a list or a dict with string keys. A dict keeps its
  insertion order and has each key once, so it is an association list.
\<close>

datatype pyval =
    PNone
  | PBool bool
  | PInt int
  | PFloat rat
  | PStr string
  | PList "pyval list"
  | PDict "(string \<times> pyval) list"

text \<open>Python truthiness, as tested by \<^verbatim>\<open>if metadata:\<close>.\<close>

fun truthy :: "pyval \<Rightarrow> bool" where
  "truthy PNone = False"
| "truthy (PBool b) = b"
| "truthy (PInt i) = (i \<noteq> 0)"
| "truthy (PFloat r) = (r \<noteq> 0)"
| "truthy (PStr s) = (s \<noteq> [])"
| "truthy (PList xs) = (xs \<noteq> [])"
| "truthy (PDict kvs) = (kvs \<noteq> [])"

text \<open>\<^verbatim>\<open>d[k] = v\<close>: an existing key keeps its place, a new key goes to the end.\<close>

fun dict_set :: "(string \<times> pyval) list \<Rightarrow> string \<Rightarrow> pyval \<Rightarrow> (string \<times> pyval) list" where
  "dict_set [] k v = [(k, v)]"
| "dict_set ((k', v') # d) k v = (if k' = k then (k, v) # d else (k', v') # dict_set d k v)"

text \<open>
  The exceptions that occur. The first four are subclasses of
  \<^verbatim>\<open>requests.exceptions.RequestException\<close>; \<open>KeyboardInterrupt\<close> and \<open>SystemExit\<close> derive from
  \<open>BaseException\<close> only, all others from \<open>Exception\<close>.
\<close>

datatype exn =
    ConnectionError string
  | Timeout string
  | HTTPError nat
  | InvalidJSONError string
  | KeyError string
  | TypeError string
  | ValueError string
  | RuntimeError string
  | KeyboardInterrupt
  | SystemExit nat

fun is_RequestException :: "exn \<Rightarrow> bool" where
  "is_RequestException (ConnectionError _) = True"
| "is_RequestException (Timeout _) = True"
| "is_RequestException (HTTPError _) = True"
| "is_RequestException (InvalidJSONError _) = True"
| "is_RequestException _ = False"

fun is_Exception :: "exn \<Rightarrow> bool" where
  "is_Exception KeyboardInterrupt = False"
| "is_Exception (SystemExit _) = False"
| "is_Exception _ = True"

text \<open>
  \<^verbatim>\<open>v[k]\<close> for a string key \<open>k\<close>: only a dict holding the key answers. Every other value
  raises \<open>TypeError\<close>, with the message of CPython 3.11 (\<open>CHR 0x27\<close> is the apostrophe).
\<close>

fun subscript :: "pyval \<Rightarrow> string \<Rightarrow> exn + pyval" where
  "subscript (PDict kvs) k = (case map_of kvs k of None \<Rightarrow> Inl (KeyError k) | Some v \<Rightarrow> Inr v)"
| "subscript (PStr _) k =
     Inl (TypeError (''string indices must be integers, not '' @ [CHR 0x27] @ ''str'' @ [CHR 0x27]))"
| "subscript (PList _) k = Inl (TypeError ''list indices must be integers or slices, not str'')"
| "subscript PNone k =
     Inl (TypeError ([CHR 0x27] @ ''NoneType'' @ [CHR 0x27] @ '' object is not subscriptable''))"
| "subscript (PBool _) k =
     Inl (TypeError ([CHR 0x27] @ ''bool'' @ [CHR 0x27] @ '' object is not subscriptable''))"
| "subscript (PInt _) k =
     Inl (TypeError ([CHR 0x27] @ ''int'' @ [CHR 0x27] @ '' object is not subscriptable''))"
| "subscript (PFloat _) k =
     Inl (TypeError ([CHR 0x27] @ ''float'' @ [CHR 0x27] @ '' object is not subscriptable''))"

text \<open>
  An f-string is a sequence of literal pieces and formatted values. What a run does to the
  outside is a sequence of events, oldest first.
\<close>

datatype piece = Lit string | Fmt pyval | Fmt_exn exn

datatype action =
    Resource_create "(string \<times> pyval) list"
  | OTLPSpanExporter_new string "(string \<times> pyval) list option"
  | TracerProvider_new
  | BatchSpanProcessor_new
  | Add_span_processor
  | Set_tracer_provider
  | Get_tracer_provider
  | Get_tracer string
  | Span_enter string
  | Span_exit string "exn option"
  | Set_attribute string string pyval
  | Add_event string string "(string \<times> pyval) list"
  | Shutdown

datatype event =
    Post string pyval
  | Print "piece list"
  | Sleep rat
  | Did action
  | Print_exc exn

type_synonym trace = "event list"

type_synonym 'a prog = "trace \<Rightarrow> (exn + 'a) \<times> trace"

fun posts :: "trace \<Rightarrow> (string \<times> pyval) list" where
  "posts [] = []"
| "posts (Post u p # tr) = (u, p) # posts tr"
| "posts (_ # tr) = posts tr"

fun prints :: "trace \<Rightarrow> piece list list" where
  "prints [] = []"
| "prints (Print l # tr) = l # prints tr"
| "prints (_ # tr) = prints tr"

section \<open>The requests library, as far as \<^verbatim>\<open>client.py\<close> uses it\<close>

text \<open>
  A response carries its status code and what \<^verbatim>\<open>response.json()\<close> will do: raise, or
  return the parsed body. The network is a parameter: it answers a call of
  \<^verbatim>\<open>requests.post(url, json=body)\<close>, given everything that happened before, by raising or
  by a response.
\<close>

record response =
  status_code :: nat
  json :: "exn + pyval"

type_synonym network = "trace \<Rightarrow> string \<Rightarrow> pyval \<Rightarrow> exn + response"

text \<open>\<^verbatim>\<open>Response.raise_for_status\<close> raises \<open>HTTPError\<close> for a 4xx or 5xx status.\<close>

definition raise_for_status :: "response \<Rightarrow> exn option" where
  "raise_for_status r =
     (if 400 \<le> status_code r \<and> status_code r < 600 then Some (HTTPError (status_code r)) else None)"

section \<open>\<^verbatim>\<open>examples/client.py\<close>\<close>

definition API_URL :: string where
  "API_URL = ''http://localhost:8080/api/traces''"

text \<open>The UTF-8 bytes of the check mark U+2713 and of the ballot X U+2717.\<close>

definition check_mark :: string where
  "check_mark = [CHR 0xE2, CHR 0x9C, CHR 0x93]"

definition ballot_x :: string where
  "ballot_x = [CHR 0xE2, CHR 0x9C, CHR 0x97]"

text \<open>Lines 25 to 35 of \<^verbatim>\<open>create_trace\<close>: the dict literal and the conditional \<open>metadata\<close> key.\<close>

definition build_payload ::
  "pyval \<Rightarrow> pyval \<Rightarrow> pyval \<Rightarrow> pyval \<Rightarrow> pyval \<Rightarrow> pyval \<Rightarrow> pyval \<Rightarrow> (string \<times> pyval) list" where
  "build_payload model input_text output_text prompt_tokens output_tokens duration_ms metadata =
     (let payload =
        [(''model'', model),
         (''input'', input_text),
         (''output'', output_text),
         (''prompt_tokens'', prompt_tokens),
         (''output_tokens'', output_tokens),
         (''duration'', duration_ms)]
      in if truthy metadata then dict_set payload ''metadata'' metadata else payload)"

text \<open>
  Lines 38 to 42, the body of the \<^verbatim>\<open>try\<close>: the POST, \<^verbatim>\<open>raise_for_status\<close>, \<^verbatim>\<open>json()\<close>, the
  print of \<^verbatim>\<open>result['id']\<close>, and the return of \<^verbatim>\<open>result\<close>. The first exception ends it.
\<close>

definition create_trace_try :: "network \<Rightarrow> (string \<times> pyval) list \<Rightarrow> pyval prog" where
  "create_trace_try net payload tr =
     (let tr1 = tr @ [Post API_URL (PDict payload)] in
      case net tr API_URL (PDict payload) of
        Inl e \<Rightarrow> (Inl e, tr1)
      | Inr response \<Rightarrow>
          (case raise_for_status response of
             Some e \<Rightarrow> (Inl e, tr1)
           | None \<Rightarrow>
               (case json response of
                  Inl e \<Rightarrow> (Inl e, tr1)
                | Inr result \<Rightarrow>
                    (case subscript result ''id'' of
                       Inl e \<Rightarrow> (Inl e, tr1)
                     | Inr ident \<Rightarrow>
                         (Inr result,
                          tr1 @ [Print [Lit (check_mark @ '' Trace created: ''), Fmt ident]])))))"

text \<open>
  \<^verbatim>\<open>create_trace\<close>: the payload, the \<^verbatim>\<open>try\<close>, and the handler of lines 43 to 45, which takes
  a \<open>RequestException\<close> only; any other exception leaves the function.
\<close>

definition create_trace ::
  "network \<Rightarrow> pyval \<Rightarrow> pyval \<Rightarrow> pyval \<Rightarrow> pyval \<Rightarrow> pyval \<Rightarrow> pyval \<Rightarrow> pyval \<Rightarrow> pyval prog" where
  "create_trace net model input_text output_text prompt_tokens output_tokens duration_ms metadata tr =
     (let payload =
        build_payload model input_text output_text prompt_tokens output_tokens duration_ms metadata
      in case create_trace_try net payload tr of
           (Inr result, tr') \<Rightarrow> (Inr result, tr')
         | (Inl e, tr') \<Rightarrow>
             if is_RequestException e
             then (Inr PNone, tr' @ [Print [Lit (ballot_x @ '' Error creating trace: ''), Fmt_exn e]])
             else (Inl e, tr'))"

text \<open>\<^verbatim>\<open>time.sleep\<close> and \<^verbatim>\<open>print\<close> only leave their event.\<close>

definition sleep :: "rat \<Rightarrow> unit prog" where
  "sleep seconds tr = (Inr (), tr @ [Sleep seconds])"

definition py_print :: "piece list \<Rightarrow> unit prog" where
  "py_print line tr = (Inr (), tr @ [Print line])"

text \<open>The finite doubles that the float literals of the scripts denote.\<close>

definition float_0_7 :: rat where
  "float_0_7 = 3152519739159347 / 4503599627370496"

definition float_0_1 :: rat where
  "float_0_1 = 3602879701896397 / 36028797018963968"

definition float_0_05 :: rat where
  "float_0_05 = 3602879701896397 / 72057594037927936"

definition float_0_08 :: rat where
  "float_0_08 = 5764607523034235 / 72057594037927936"

definition float_0_12 :: rat where
  "float_0_12 = 1080863910568919 / 9007199254740992"

definition float_0_09 :: rat where
  "float_0_09 = 3242591731706757 / 36028797018963968"

text \<open>
  Lines 77 to 87 of \<^verbatim>\<open>main\<close>: the loop over the model names. An exception that leaves
  \<^verbatim>\<open>create_trace\<close> ends the loop, since \<^verbatim>\<open>main\<close> has no handler.
\<close>

fun main_loop :: "network \<Rightarrow> string list \<Rightarrow> unit prog" where
  "main_loop net [] tr = (Inr (), tr)"
| "main_loop net (model # models) tr =
     (case create_trace net
             (PStr model)
             (PStr (''Test prompt for '' @ model))
             (PStr (''Test response from '' @ model))
             (PInt 10) (PInt 25) (PInt 800) PNone tr of
        (Inl e, tr1) \<Rightarrow> (Inl e, tr1)
      | (Inr _, tr1) \<Rightarrow>
          (case sleep float_0_1 tr1 of
             (Inl e, tr2) \<Rightarrow> (Inl e, tr2)
           | (Inr _, tr2) \<Rightarrow> main_loop net models tr2))"

text \<open>\<^verbatim>\<open>main\<close> of \<^verbatim>\<open>client.py\<close>: two calls, then the loop over three models.\<close>

definition client_main :: "network \<Rightarrow> unit prog" where
  "client_main net tr =
     (case create_trace net
             (PStr ''gpt-4'')
             (PStr ''What is machine learning?'')
             (PStr ''Machine learning is a subset of artificial intelligence...'')
             (PInt 15) (PInt 45) (PInt 1200) PNone tr of
        (Inl e, tr1) \<Rightarrow> (Inl e, tr1)
      | (Inr _, tr1) \<Rightarrow>
          (case create_trace net
                  (PStr ''claude-3-opus'')
                  (PStr ''Explain quantum computing in simple terms'')
                  (PStr ''Quantum computing uses quantum mechanics principles...'')
                  (PInt 20) (PInt 60) (PInt 1500)
                  (PDict [(''user_id'', PStr ''user_12345''),
                          (''session_id'', PStr ''session_abc''),
                          (''temperature'', PFloat float_0_7),
                          (''max_tokens'', PInt 100)]) tr1 of
             (Inl e, tr2) \<Rightarrow> (Inl e, tr2)
           | (Inr _, tr2) \<Rightarrow>
               main_loop net [''gpt-3.5-turbo'', ''gpt-4'', ''claude-3-sonnet''] tr2))"

section \<open>The OpenTelemetry SDK, as far as the two OTel scripts use it\<close>

text \<open>
  The SDK is a parameter as well: for each call it says whether the call raises. A call
  leaves its event either way. The process environment maps names to values.
\<close>

type_synonym sdk = "trace \<Rightarrow> action \<Rightarrow> exn option"

type_synonym environ = "string \<rightharpoonup> string"

definition getenv :: "environ \<Rightarrow> string \<Rightarrow> string \<Rightarrow> string" where
  "getenv env key dflt = (case env key of None \<Rightarrow> dflt | Some v \<Rightarrow> v)"

definition call :: "sdk \<Rightarrow> action \<Rightarrow> unit prog" where
  "call sdk a tr = (case sdk tr a of Some e \<Rightarrow> (Inl e, tr @ [Did a]) | None \<Rightarrow> (Inr (), tr @ [Did a]))"

text \<open>Statements in sequence: the first exception skips the rest.\<close>

fun block :: "unit prog list \<Rightarrow> unit prog" where
  "block [] tr = (Inr (), tr)"
| "block (s # ss) tr = (case s tr of (Inl e, tr') \<Rightarrow> (Inl e, tr') | (Inr _, tr') \<Rightarrow> block ss tr')"

text \<open>
  \<^verbatim>\<open>with tracer.start_as_current_span(name) as span: body\<close>. The span is ended on both
  exits of the body, and an exception of the body goes on after that.
\<close>

definition with_span :: "sdk \<Rightarrow> string \<Rightarrow> unit prog \<Rightarrow> unit prog" where
  "with_span sdk name body tr =
     (case call sdk (Span_enter name) tr of
        (Inl e, tr1) \<Rightarrow> (Inl e, tr1)
      | (Inr _, tr1) \<Rightarrow>
          (case body tr1 of
             (Inl e, tr2) \<Rightarrow>
               (case call sdk (Span_exit name (Some e)) tr2 of
                  (Inl e', tr3) \<Rightarrow> (Inl e', tr3)
                | (Inr _, tr3) \<Rightarrow> (Inl e, tr3))
           | (Inr _, tr2) \<Rightarrow> call sdk (Span_exit name None) tr2))"

text \<open>\<^verbatim>\<open>try: body except Exception as e: handler\<close>.\<close>

definition try_except_Exception :: "unit prog \<Rightarrow> (exn \<Rightarrow> unit prog) \<Rightarrow> unit prog" where
  "try_except_Exception body handler tr =
     (case body tr of
        (Inr u, tr') \<Rightarrow> (Inr u, tr')
      | (Inl e, tr') \<Rightarrow> if is_Exception e then handler e tr' else (Inl e, tr'))"

text \<open>\<^verbatim>\<open>traceback.print_exc()\<close> and \<^verbatim>\<open>exit(code)\<close>, which raises \<open>SystemExit\<close>.\<close>

definition print_exc :: "exn \<Rightarrow> unit prog" where
  "print_exc e tr = (Inr (), tr @ [Print_exc e])"

definition py_exit :: "nat \<Rightarrow> unit prog" where
  "py_exit code tr = (Inl (SystemExit code), tr)"

text \<open>The exporters a run has created, by the endpoint each was given.\<close>

fun exporter_endpoints :: "trace \<Rightarrow> string list" where
  "exporter_endpoints [] = []"
| "exporter_endpoints (Did (OTLPSpanExporter_new endpoint headers) # tr) = endpoint # exporter_endpoints tr"
| "exporter_endpoints (_ # tr) = exporter_endpoints tr"

fun tracebacks :: "trace \<Rightarrow> exn list" where
  "tracebacks [] = []"
| "tracebacks (Print_exc e # tr) = e # tracebacks tr"
| "tracebacks (_ # tr) = tracebacks tr"

section \<open>\<^verbatim>\<open>examples/python_otlp_client.py\<close>\<close>

text \<open>The UTF-8 bytes of the warning sign U+26A0 and of the check mark button U+2705.\<close>

definition warning_sign :: string where
  "warning_sign = [CHR 0xE2, CHR 0x9A, CHR 0xA0]"

definition check_button :: string where
  "check_button = [CHR 0xE2, CHR 0x9C, CHR 0x85]"

text \<open>
  Lines 27 to 96 of \<^verbatim>\<open>main\<close>: the endpoint from the environment, the set-up of the
  provider with its exporter, and the three examples. Nothing here is inside a \<^verbatim>\<open>try\<close>.
\<close>

definition otlp_client_examples :: "environ \<Rightarrow> sdk \<Rightarrow> unit prog" where
  "otlp_client_examples env sdk =
     (let endpoint = getenv env ''OTLP_ENDPOINT'' ''http://localhost:8080/v1/traces'' in
      block
       [call sdk (Resource_create
          [(''service.name'', PStr ''python-llm-app''), (''service.version'', PStr ''1.0.0'')]),
        call sdk TracerProvider_new,
        call sdk Set_tracer_provider,
        call sdk (Get_tracer ''__main__''),
        call sdk (OTLPSpanExporter_new endpoint None),
        call sdk BatchSpanProcessor_new,
        call sdk Get_tracer_provider,
        call sdk Add_span_processor,
        py_print [Lit ''Sending traces to Simple Traces collector at '', Fmt (PStr endpoint), Lit ''...''],
        with_span sdk ''llm-chat-completion'' (block
         [call sdk (Set_attribute ''llm-chat-completion'' ''llm.model'' (PStr ''gpt-4'')),
          call sdk (Set_attribute ''llm-chat-completion'' ''llm.input''
            (PStr ''What is the meaning of life?'')),
          call sdk (Set_attribute ''llm-chat-completion'' ''llm.output''
            (PStr (''The meaning of life is a profound philosophical question that has been ''
                   @ ''pondered throughout human history. Some say it'' @ [CHR 0x27] @ ''s 42!''))),
          call sdk (Set_attribute ''llm-chat-completion'' ''llm.usage.prompt_tokens'' (PInt 10)),
          call sdk (Set_attribute ''llm-chat-completion'' ''llm.usage.completion_tokens'' (PInt 28)),
          call sdk (Set_attribute ''llm-chat-completion'' ''llm.temperature'' (PFloat float_0_7)),
          call sdk (Set_attribute ''llm-chat-completion'' ''llm.max_tokens'' (PInt 100)),
          sleep float_0_1]),
        py_print [Lit (check_mark @ '' Sent trace with LLM attributes'')],
        with_span sdk ''gen-ai-completion'' (block
         [call sdk (Set_attribute ''gen-ai-completion'' ''gen_ai.request.model'' (PStr ''gpt-3.5-turbo'')),
          call sdk (Set_attribute ''gen-ai-completion'' ''gen_ai.prompt''
            (PStr ''Explain quantum computing in simple terms'')),
          call sdk (Set_attribute ''gen-ai-completion'' ''gen_ai.response''
            (PStr ''Quantum computing uses quantum mechanics principles to perform calculations...'')),
          call sdk (Set_attribute ''gen-ai-completion'' ''gen_ai.usage.input_tokens'' (PInt 8)),
          call sdk (Set_attribute ''gen-ai-completion'' ''gen_ai.usage.output_tokens'' (PInt 15)),
          call sdk (Set_attribute ''gen-ai-completion'' ''gen_ai.system'' (PStr ''openai'')),
          sleep float_0_05]),
        py_print [Lit (check_mark @ '' Sent trace with Gen AI semantic conventions'')],
        with_span sdk ''conversation'' (block
         [call sdk (Set_attribute ''conversation'' ''conversation.id'' (PStr ''conv-123'')),
          with_span sdk ''message-1'' (block
           [call sdk (Set_attribute ''message-1'' ''llm.model'' (PStr ''claude-2'')),
            call sdk (Set_attribute ''message-1'' ''llm.input'' (PStr ''Hello!'')),
            call sdk (Set_attribute ''message-1'' ''llm.output'' (PStr ''Hi there! How can I help you?'')),
            call sdk (Set_attribute ''message-1'' ''llm.usage.prompt_tokens'' (PInt 2)),
            call sdk (Set_attribute ''message-1'' ''llm.usage.completion_tokens'' (PInt 8)),
            sleep float_0_05]),
          with_span sdk ''message-2'' (block
           [call sdk (Set_attribute ''message-2'' ''llm.model'' (PStr ''claude-2'')),
            call sdk (Set_attribute ''message-2'' ''llm.input''
              (PStr (''What'' @ [CHR 0x27] @ ''s the weather like?''))),
            call sdk (Set_attribute ''message-2'' ''llm.output''
              (PStr (''I don'' @ [CHR 0x27] @ ''t have access to real-time weather data.''))),
            call sdk (Set_attribute ''message-2'' ''llm.usage.prompt_tokens'' (PInt 6)),
            call sdk (Set_attribute ''message-2'' ''llm.usage.completion_tokens'' (PInt 12)),
            sleep float_0_05])]),
        py_print [Lit (check_mark @ '' Sent nested conversation traces'')]])"

text \<open>
  Lines 99 to 105: the shutdown of the provider, the only \<^verbatim>\<open>try\<close> of this script. Its
  handler prints a warning and lets the run go on.
\<close>

definition otlp_client_shutdown :: "sdk \<Rightarrow> unit prog" where
  "otlp_client_shutdown sdk =
     block
      [py_print [Lit (CHR 0x0A # ''Shutting down tracer provider...'')],
       try_except_Exception
         (block
           [call sdk Get_tracer_provider,
            call sdk Shutdown,
            py_print [Lit (check_mark @ '' Tracer provider shutdown successfully'')]])
         (\<lambda>e. block
           [py_print [Lit (warning_sign @ '' Warning: Error during shutdown: ''), Fmt_exn e],
            py_print [Lit ''  Some traces may not have been fully exported'']])]"

text \<open>\<^verbatim>\<open>main\<close> of \<^verbatim>\<open>python_otlp_client.py\<close>, with its two closing prints.\<close>

definition otlp_client_main :: "environ \<Rightarrow> sdk \<Rightarrow> unit prog" where
  "otlp_client_main env sdk =
     block
      [otlp_client_examples env sdk,
       otlp_client_shutdown sdk,
       py_print [Lit (CHR 0x0A # check_button @ '' All traces sent successfully!'')],
       py_print [Lit ''View them at: http://localhost:8080'']]"

section \<open>\<^verbatim>\<open>examples/otel-client.py\<close>\<close>

definition SERVICE_NAME :: string where
  "SERVICE_NAME = ''simple-traces-python-example''"

definition OTLP_ENDPOINT :: string where
  "OTLP_ENDPOINT = ''http://localhost:8080/v1/traces''"

text \<open>\<^verbatim>\<open>init_tracer\<close>: the exporter is given the module constant; the environment is not read.\<close>

definition init_tracer :: "sdk \<Rightarrow> unit prog" where
  "init_tracer sdk =
     block
      [call sdk (Resource_create
         [(''service.name'', PStr SERVICE_NAME), (''service.version'', PStr ''1.0.0'')]),
       call sdk (OTLPSpanExporter_new OTLP_ENDPOINT (Some [])),
       call sdk TracerProvider_new,
       call sdk BatchSpanProcessor_new,
       call sdk Add_span_processor,
       call sdk Set_tracer_provider,
       py_print [Lit (check_mark @ '' OpenTelemetry initialized with OTLP exporter'')],
       py_print [Lit ''  Sending traces to: '', Fmt (PStr OTLP_ENDPOINT)],
       call sdk (Get_tracer SERVICE_NAME)]"

definition simple_trace_example :: "sdk \<Rightarrow> unit prog" where
  "simple_trace_example sdk =
     block
      [py_print [Lit (CHR 0x0A # ''--- Simple Trace Example ---'')],
       with_span sdk ''llm.call'' (block
        [call sdk (Set_attribute ''llm.call'' ''llm.model'' (PStr ''gpt-4'')),
         call sdk (Set_attribute ''llm.call'' ''llm.input'' (PStr ''What is the capital of France?'')),
         call sdk (Set_attribute ''llm.call'' ''llm.output'' (PStr ''The capital of France is Paris.'')),
         call sdk (Set_attribute ''llm.call'' ''llm.usage.prompt_tokens'' (PInt 10)),
         call sdk (Set_attribute ''llm.call'' ''llm.usage.completion_tokens'' (PInt 15)),
         sleep float_0_1]),
       py_print [Lit (check_mark @ '' Simple trace sent'')]]"

definition nested_trace_example :: "sdk \<Rightarrow> unit prog" where
  "nested_trace_example sdk =
     block
      [py_print [Lit (CHR 0x0A # ''--- Nested Trace Example ---'')],
       with_span sdk ''llm.conversation'' (block
        [with_span sdk ''llm.call.1'' (block
          [call sdk (Set_attribute ''llm.call.1'' ''llm.model'' (PStr ''gpt-3.5-turbo'')),
           call sdk (Set_attribute ''llm.call.1'' ''llm.input'' (PStr ''Tell me a joke'')),
           call sdk (Set_attribute ''llm.call.1'' ''llm.output''
             (PStr ''Why did the chicken cross the road? To get to the other side!'')),
           call sdk (Set_attribute ''llm.call.1'' ''llm.usage.prompt_tokens'' (PInt 5)),
           call sdk (Set_attribute ''llm.call.1'' ''llm.usage.completion_tokens'' (PInt 20)),
           sleep float_0_08]),
         with_span sdk ''llm.call.2'' (block
          [call sdk (Set_attribute ''llm.call.2'' ''llm.model'' (PStr ''gpt-4'')),
           call sdk (Set_attribute ''llm.call.2'' ''llm.input'' (PStr ''Explain that joke'')),
           call sdk (Set_attribute ''llm.call.2'' ''llm.output''
             (PStr ''The joke plays on the classic setup-punchline format...'')),
           call sdk (Set_attribute ''llm.call.2'' ''llm.usage.prompt_tokens'' (PInt 8)),
           call sdk (Set_attribute ''llm.call.2'' ''llm.usage.completion_tokens'' (PInt 30)),
           sleep float_0_12])]),
       py_print [Lit (check_mark @ '' Nested trace sent'')]]"

definition gen_ai_trace_example :: "sdk \<Rightarrow> unit prog" where
  "gen_ai_trace_example sdk =
     block
      [py_print [Lit (CHR 0x0A # ''--- Gen AI Semantic Conventions Example ---'')],
       with_span sdk ''gen_ai.completion'' (block
        [call sdk (Set_attribute ''gen_ai.completion'' ''gen_ai.system'' (PStr ''openai'')),
         call sdk (Set_attribute ''gen_ai.completion'' ''gen_ai.request.model'' (PStr ''gpt-4-turbo'')),
         call sdk (Set_attribute ''gen_ai.completion'' ''gen_ai.prompt''
           (PStr (''Translate '' @ [CHR 0x22] @ ''hello'' @ [CHR 0x22] @ '' to French''))),
         call sdk (Set_attribute ''gen_ai.completion'' ''gen_ai.response'' (PStr ''Bonjour'')),
         call sdk (Set_attribute ''gen_ai.completion'' ''gen_ai.usage.input_tokens'' (PInt 6)),
         call sdk (Set_attribute ''gen_ai.completion'' ''gen_ai.usage.output_tokens'' (PInt 2)),
         call sdk (Set_attribute ''gen_ai.completion'' ''gen_ai.request.temperature'' (PFloat float_0_7)),
         call sdk (Set_attribute ''gen_ai.completion'' ''gen_ai.request.max_tokens'' (PInt 100)),
         sleep float_0_09]),
       py_print [Lit (check_mark @ '' Gen AI trace sent'')]]"

definition trace_with_events_example :: "sdk \<Rightarrow> unit prog" where
  "trace_with_events_example sdk =
     block
      [py_print [Lit (CHR 0x0A # ''--- Trace with Events Example ---'')],
       with_span sdk ''llm.streaming_call'' (block
        [call sdk (Set_attribute ''llm.streaming_call'' ''llm.model'' (PStr ''claude-3-opus'')),
         call sdk (Set_attribute ''llm.streaming_call'' ''llm.input'' (PStr ''Write a short poem'')),
         call sdk (Add_event ''llm.streaming_call'' ''stream.started'' []),
         sleep float_0_05,
         call sdk (Add_event ''llm.streaming_call'' ''stream.chunk_received''
           [(''chunk'', PInt 1), (''content'', PStr ''Roses are red,'')]),
         sleep float_0_05,
         call sdk (Add_event ''llm.streaming_call'' ''stream.chunk_received''
           [(''chunk'', PInt 2), (''content'', PStr ''Violets are blue,'')]),
         sleep float_0_05,
         call sdk (Add_event ''llm.streaming_call'' ''stream.chunk_received''
           [(''chunk'', PInt 3), (''content'', PStr ''OpenTelemetry is great,'')]),
         sleep float_0_05,
         call sdk (Add_event ''llm.streaming_call'' ''stream.chunk_received''
           [(''chunk'', PInt 4), (''content'', PStr ''And so are you!'')]),
         call sdk (Add_event ''llm.streaming_call'' ''stream.completed'' [(''total_chunks'', PInt 4)]),
         call sdk (Set_attribute ''llm.streaming_call'' ''llm.output''
           (PStr ''Roses are red, Violets are blue, OpenTelemetry is great, And so are you!'')),
         call sdk (Set_attribute ''llm.streaming_call'' ''llm.usage.prompt_tokens'' (PInt 7)),
         call sdk (Set_attribute ''llm.streaming_call'' ''llm.usage.completion_tokens'' (PInt 18))]),
       py_print [Lit (check_mark @ '' Trace with events sent'')]]"

text \<open>Lines 161 to 174 of \<^verbatim>\<open>main\<close>: the body of its \<^verbatim>\<open>try\<close>.\<close>

definition otel_client_run :: "sdk \<Rightarrow> unit prog" where
  "otel_client_run sdk =
     block
      [init_tracer sdk,
       simple_trace_example sdk,
       nested_trace_example sdk,
       gen_ai_trace_example sdk,
       trace_with_events_example sdk,
       sleep 2,
       py_print [Lit (CHR 0x0A # check_mark @ '' All examples completed!'')],
       py_print [Lit ''Check the Simple Traces UI at http://localhost:8080 to see the traces.'']]"

text \<open>Lines 176 to 180: the handler of \<^verbatim>\<open>except Exception as e\<close>.\<close>

definition otel_client_handler :: "exn \<Rightarrow> unit prog" where
  "otel_client_handler e =
     block
      [py_print [Lit (ballot_x @ '' Error: ''), Fmt_exn e],
       print_exc e,
       py_exit 1]"

text \<open>\<^verbatim>\<open>main\<close> of \<^verbatim>\<open>otel-client.py\<close>. It takes no environment: the script never reads one.\<close>

definition otel_client_main :: "sdk \<Rightarrow> unit prog" where
  "otel_client_main sdk =
     block
      [py_print [Lit ''OpenTelemetry Simple Traces Example Client (Python)''],
       py_print [Lit (replicate 50 (CHR ''=''))],
       try_except_Exception (otel_client_run sdk) otel_client_handler]"

section \<open>The scripts as run\<close>

text \<open>
  \<^verbatim>\<open>if __name__ == "__main__": main()\<close>, in a process with the environment \<open>env\<close>. Only
  \<^verbatim>\<open>python_otlp_client.py\<close> hands the environment on, through \<^verbatim>\<open>os.getenv\<close>.
\<close>

definition otlp_client_script :: "environ \<Rightarrow> sdk \<Rightarrow> unit prog" where
  "otlp_client_script env sdk = otlp_client_main env sdk"

definition otel_client_script :: "environ \<Rightarrow> sdk \<Rightarrow> unit prog" where
  "otel_client_script env sdk = otel_client_main sdk"

section \<open>Concrete networks, SDKs and environments for the examples\<close>

text \<open>A network that refuses every connection, and one that always answers the same.\<close>

definition net_refused :: network where
  "net_refused tr url body = Inl (ConnectionError ''Connection refused'')"

definition net_answer :: "nat \<Rightarrow> exn + pyval \<Rightarrow> network" where
  "net_answer code body tr url payload = Inr \<lparr>status_code = code, json = body\<rparr>"

text \<open>
  An SDK whose calls never raise, one whose provider shutdown raises, and one whose
  exporter constructor raises.
\<close>

definition sdk_ok :: sdk where
  "sdk_ok tr a = None"

definition sdk_shutdown_fails :: sdk where
  "sdk_shutdown_fails tr a = (if a = Shutdown then Some (RuntimeError ''export failed'') else None)"

definition sdk_exporter_fails :: sdk where
  "sdk_exporter_fails tr a =
     (case a of OTLPSpanExporter_new endpoint headers \<Rightarrow> Some (ValueError ''bad endpoint'') | _ \<Rightarrow> None)"

text \<open>An environment without \<^verbatim>\<open>OTLP_ENDPOINT\<close>, and one that sets it.\<close>

definition env_unset :: environ where
  "env_unset = map_of []"

definition env_custom :: environ where
  "env_custom = map_of [(''OTLP_ENDPOINT'', ''http://collector:4318/v1/traces'')]"

section \<open>Invariants of the events a program adds\<close>

text \<open>
  \<open>extends_with P prog\<close>: from any trace, \<open>prog\<close> only appends events, and each of them
  satisfies \<open>P\<close>. \<open>exports_to u\<close> holds of every event but the creation of an exporter with
  an endpoint other than \<open>u\<close>.
\<close>

definition extends_with :: "(event \<Rightarrow> bool) \<Rightarrow> unit prog \<Rightarrow> bool" where
  "extends_with P prog = (\<forall>tr. \<exists>new. snd (prog tr) = tr @ new \<and> list_all P new)"

fun exports_to :: "string \<Rightarrow> event \<Rightarrow> bool" where
  "exports_to u (Did (OTLPSpanExporter_new endpoint headers)) = (endpoint = u)"
| "exports_to u _ = True"

section \<open>Properties of \<^verbatim>\<open>create_trace\<close>\<close>

lemma posts_append: "posts (xs @ ys) = posts xs @ posts ys"
  by (induction xs rule: posts.induct) simp_all

lemma prints_append: "prints (xs @ ys) = prints xs @ prints ys"
  by (induction xs rule: prints.induct) simp_all

lemma subscript_error: "subscript v k = Inl e \<Longrightarrow> \<not> is_RequestException e \<and> is_Exception e"
  by (cases v) (auto split: option.splits)

lemma build_payload_eq:
  "build_payload m i out pt ot d md =
     [(''model'', m), (''input'', i), (''output'', out),
      (''prompt_tokens'', pt), (''output_tokens'', ot), (''duration'', d)]
     @ (if truthy md then [(''metadata'', md)] else [])"
  by (simp add: build_payload_def)

lemma create_trace_try_posts:
  "posts (snd (create_trace_try net payload tr)) = posts tr @ [(API_URL, PDict payload)]"
  by (simp add: create_trace_try_def Let_def posts_append split: sum.splits option.splits)

lemma create_trace_posts:
  "posts (snd (create_trace net m i out pt ot d md tr)) =
     posts tr @ [(API_URL, PDict (build_payload m i out pt ot d md))]"
  using create_trace_try_posts [of net "build_payload m i out pt ot d md" tr]
  by (auto simp: create_trace_def Let_def posts_append split: prod.splits sum.splits)

lemma create_trace_try_events:
  "\<exists>rest. snd (create_trace_try net payload tr) = tr @ Post API_URL (PDict payload) # rest
          \<and> posts rest = []"
  by (simp add: create_trace_try_def Let_def split: sum.splits option.splits)

lemma create_trace_events:
  "\<exists>rest. snd (create_trace net m i out pt ot d md tr) =
            tr @ Post API_URL (PDict (build_payload m i out pt ot d md)) # rest \<and> posts rest = []"
proof -
  let ?p = "build_payload m i out pt ot d md"
  obtain rest where rest:
    "snd (create_trace_try net ?p tr) = tr @ Post API_URL (PDict ?p) # rest" "posts rest = []"
    using create_trace_try_events by blast
  show ?thesis
  proof (cases "create_trace_try net ?p tr")
    case (Pair res tr')
    with rest have tr': "tr' = tr @ Post API_URL (PDict ?p) # rest"
      by simp
    show ?thesis
      using Pair tr' rest(2)
      by (cases res) (auto simp: create_trace_def Let_def posts_append)
  qed
qed

lemma create_trace_depends_on_answer:
  assumes "net tr API_URL (PDict (build_payload m i out pt ot d md)) =
           net' tr API_URL (PDict (build_payload m' i' out' pt' ot' d' md'))"
  shows "fst (create_trace net m i out pt ot d md tr) = fst (create_trace net' m' i' out' pt' ot' d' md' tr)
         \<and> prints (snd (create_trace net m i out pt ot d md tr)) =
            prints (snd (create_trace net' m' i' out' pt' ot' d' md' tr))"
  using assms
  by (auto simp: create_trace_def create_trace_try_def Let_def prints_append
           split: sum.splits option.splits)

text \<open>
  C1. When \<^verbatim>\<open>requests.post\<close> raises a \<open>RequestException\<close>, or \<^verbatim>\<open>raise_for_status\<close> raises
  for a 4xx or 5xx status, \<^verbatim>\<open>create_trace\<close> has issued the POST, prints the error line and
  returns \<open>None\<close>; and no \<open>RequestException\<close> ever leaves \<^verbatim>\<open>create_trace\<close>.
\<close>

theorem create_trace_catches_RequestException:
  "(net tr API_URL (PDict (build_payload m i out pt ot d md)) = Inl e \<and> is_RequestException e \<longrightarrow>
      create_trace net m i out pt ot d md tr =
        (Inr PNone,
         tr @ [Post API_URL (PDict (build_payload m i out pt ot d md)),
               Print [Lit (ballot_x @ '' Error creating trace: ''), Fmt_exn e]]))
   \<and> (net tr API_URL (PDict (build_payload m i out pt ot d md)) = Inr r \<and>
        400 \<le> status_code r \<and> status_code r < 600 \<longrightarrow>
      create_trace net m i out pt ot d md tr =
        (Inr PNone,
         tr @ [Post API_URL (PDict (build_payload m i out pt ot d md)),
               Print [Lit (ballot_x @ '' Error creating trace: ''), Fmt_exn (HTTPError (status_code r))]]))
   \<and> (\<forall>e' tr'. create_trace net m i out pt ot d md tr = (Inl e', tr') \<longrightarrow> \<not> is_RequestException e')"
  by (auto simp: create_trace_def create_trace_try_def raise_for_status_def Let_def
           split: prod.splits sum.splits if_splits option.splits)

text \<open>C1 at a refused connection and at a 503 answer.\<close>

theorem create_trace_catches_RequestException_witness:
  "is_RequestException (ConnectionError ''Connection refused'')
   \<and> create_trace net_refused
        (PStr ''gpt-4'') (PStr ''hi'') (PStr ''ho'') (PInt 1) (PInt 2) (PInt 3) PNone [] =
       (Inr PNone,
        [Post API_URL (PDict [(''model'', PStr ''gpt-4''), (''input'', PStr ''hi''), (''output'', PStr ''ho''),
                              (''prompt_tokens'', PInt 1), (''output_tokens'', PInt 2), (''duration'', PInt 3)]),
         Print [Lit (ballot_x @ '' Error creating trace: ''), Fmt_exn (ConnectionError ''Connection refused'')]])
   \<and> create_trace (net_answer 503 (Inr (PDict [(''id'', PInt 7)])))
        (PStr ''gpt-4'') (PStr ''hi'') (PStr ''ho'') (PInt 1) (PInt 2) (PInt 3) PNone [] =
       (Inr PNone,
        [Post API_URL (PDict [(''model'', PStr ''gpt-4''), (''input'', PStr ''hi''), (''output'', PStr ''ho''),
                              (''prompt_tokens'', PInt 1), (''output_tokens'', PInt 2), (''duration'', PInt 3)]),
         Print [Lit (ballot_x @ '' Error creating trace: ''), Fmt_exn (HTTPError 503)]])"
  using create_trace_catches_RequestException
          [of net_refused "[]"
              "PStr ''gpt-4''" "PStr ''hi''" "PStr ''ho''" "PInt 1" "PInt 2" "PInt 3" PNone
              "ConnectionError ''Connection refused''"]
        create_trace_catches_RequestException
          [of "net_answer 503 (Inr (PDict [(''id'', PInt 7)]))" "[]"
              "PStr ''gpt-4''" "PStr ''hi''" "PStr ''ho''" "PInt 1" "PInt 2" "PInt 3" PNone
              _ "\<lparr>status_code = 503, json = Inr (PDict [(''id'', PInt 7)])\<rparr>"]
  by (simp add: build_payload_def net_refused_def net_answer_def)

text \<open>
  C2, as amended. For a 2xx response whose parsed body is not a dict holding \<open>id\<close>, the
  lookup \<^verbatim>\<open>result['id']\<close> raises (a \<open>KeyError\<close> or a \<open>TypeError\<close>, never a
  \<open>RequestException\<close>), and \<^verbatim>\<open>create_trace\<close> lets it go to the caller: the POST has been
  issued, nothing is printed, and \<open>None\<close> is not returned.
\<close>

theorem create_trace_bad_shape_propagates:
  assumes "net tr API_URL (PDict (build_payload m i out pt ot d md)) = Inr r"
    and "200 \<le> status_code r" and "status_code r < 300"
    and "json r = Inr v"
    and "subscript v ''id'' = Inl e"
  shows "create_trace net m i out pt ot d md tr =
           (Inl e, tr @ [Post API_URL (PDict (build_payload m i out pt ot d md))])
         \<and> \<not> is_RequestException e \<and> is_Exception e"
  using assms subscript_error [of v "''id''" e]
  by (simp add: create_trace_def create_trace_try_def raise_for_status_def Let_def)

text \<open>The amended C2 at a 201 response whose body is a JSON list.\<close>

theorem create_trace_bad_shape_propagates_witness:
  "create_trace (net_answer 201 (Inr (PList [PStr ''id''])))
        (PStr ''gpt-4'') (PStr ''hi'') (PStr ''ho'') (PInt 1) (PInt 2) (PInt 3) PNone [] =
       (Inl (TypeError ''list indices must be integers or slices, not str''),
        [Post API_URL (PDict [(''model'', PStr ''gpt-4''), (''input'', PStr ''hi''), (''output'', PStr ''ho''),
                         (''prompt_tokens'', PInt 1), (''output_tokens'', PInt 2), (''duration'', PInt 3)])])"
  using create_trace_bad_shape_propagates
          [of "net_answer 201 (Inr (PList [PStr ''id'']))" "[]"
              "PStr ''gpt-4''" "PStr ''hi''" "PStr ''ho''" "PInt 1" "PInt 2" "PInt 3" PNone
              "\<lparr>status_code = 201, json = Inr (PList [PStr ''id''])\<rparr>" "PList [PStr ''id'']"
              "TypeError ''list indices must be integers or slices, not str''"]
  by (simp add: build_payload_def net_answer_def)

text \<open>
  C2 as stated fails: a 200 response with the JSON object \<^verbatim>\<open>{"status": "ok"}\<close> makes
  \<^verbatim>\<open>create_trace\<close> raise \<open>KeyError\<close>; it neither returns \<open>None\<close> nor prints anything.
\<close>

theorem create_trace_missing_id_counterexample:
  "create_trace (net_answer 200 (Inr (PDict [(''status'', PStr ''ok'')])))
        (PStr ''gpt-4'') (PStr ''hi'') (PStr ''ho'') (PInt 1) (PInt 2) (PInt 3) PNone [] =
       (Inl (KeyError ''id''),
        [Post API_URL (PDict [(''model'', PStr ''gpt-4''), (''input'', PStr ''hi''), (''output'', PStr ''ho''),
                         (''prompt_tokens'', PInt 1), (''output_tokens'', PInt 2), (''duration'', PInt 3)])])
   \<and> fst (create_trace (net_answer 200 (Inr (PDict [(''status'', PStr ''ok'')])))
        (PStr ''gpt-4'') (PStr ''hi'') (PStr ''ho'') (PInt 1) (PInt 2) (PInt 3) PNone []) \<noteq> Inr PNone"
  by (simp add: create_trace_def create_trace_try_def build_payload_def raise_for_status_def
                net_answer_def)

text \<open>
  C3, as amended. For a 2xx response whose parsed body holds \<open>id\<close>, \<^verbatim>\<open>create_trace\<close> prints
  the value of \<open>id\<close> and returns the whole parsed body, not the \<open>id\<close> value alone.
\<close>

theorem create_trace_success:
  assumes "net tr API_URL (PDict (build_payload m i out pt ot d md)) = Inr r"
    and "200 \<le> status_code r" and "status_code r < 300"
    and "json r = Inr v"
    and "subscript v ''id'' = Inr ident"
  shows "create_trace net m i out pt ot d md tr =
           (Inr v, tr @ [Post API_URL (PDict (build_payload m i out pt ot d md)),
                         Print [Lit (check_mark @ '' Trace created: ''), Fmt ident]])"
  using assms
  by (simp add: create_trace_def create_trace_try_def raise_for_status_def Let_def)

text \<open>The amended C3 at a 200 response with the body \<^verbatim>\<open>{"id": "abc"}\<close>.\<close>

theorem create_trace_success_witness:
  "create_trace (net_answer 200 (Inr (PDict [(''id'', PStr ''abc'')])))
        (PStr ''gpt-4'') (PStr ''hi'') (PStr ''ho'') (PInt 1) (PInt 2) (PInt 3) PNone [] =
       (Inr (PDict [(''id'', PStr ''abc'')]),
        [Post API_URL (PDict [(''model'', PStr ''gpt-4''), (''input'', PStr ''hi''), (''output'', PStr ''ho''),
                         (''prompt_tokens'', PInt 1), (''output_tokens'', PInt 2), (''duration'', PInt 3)]),
         Print [Lit (check_mark @ '' Trace created: ''), Fmt (PStr ''abc'')]])"
  using create_trace_success
          [of "net_answer 200 (Inr (PDict [(''id'', PStr ''abc'')]))" "[]"
              "PStr ''gpt-4''" "PStr ''hi''" "PStr ''ho''" "PInt 1" "PInt 2" "PInt 3" PNone
              "\<lparr>status_code = 200, json = Inr (PDict [(''id'', PStr ''abc'')])\<rparr>"
              "PDict [(''id'', PStr ''abc'')]" "PStr ''abc''"]
  by (simp add: build_payload_def net_answer_def)

text \<open>
  C3 as stated fails: for the body \<^verbatim>\<open>{"id": "abc"}\<close> the identifier is \<^verbatim>\<open>"abc"\<close>, and the
  value returned is not that identifier.
\<close>

theorem create_trace_returns_id_counterexample:
  "subscript (PDict [(''id'', PStr ''abc'')]) ''id'' = Inr (PStr ''abc'')
   \<and> fst (create_trace (net_answer 200 (Inr (PDict [(''id'', PStr ''abc'')])))
        (PStr ''gpt-4'') (PStr ''hi'') (PStr ''ho'') (PInt 1) (PInt 2) (PInt 3) PNone []) \<noteq> Inr (PStr ''abc'')"
  by (simp add: create_trace_def create_trace_try_def build_payload_def raise_for_status_def
                net_answer_def)

text \<open>
  C4, as amended. The body sent by \<^verbatim>\<open>create_trace\<close> is the dict of the six keys \<open>model\<close>,
  \<open>input\<close>, \<open>output\<close>, \<open>prompt_tokens\<close>, \<open>output_tokens\<close>, \<open>duration\<close>, bound to the
  arguments in this order (\<open>duration_ms\<close> under \<open>duration\<close>), followed by the key \<open>metadata\<close>
  bound to the metadata argument when that argument is truthy, and by nothing otherwise.
\<close>

theorem create_trace_request_body:
  "map snd (posts (snd (create_trace net m i out pt ot d md tr))) =
     map snd (posts tr) @
     [PDict ([(''model'', m), (''input'', i), (''output'', out),
              (''prompt_tokens'', pt), (''output_tokens'', ot), (''duration'', d)]
             @ (if truthy md then [(''metadata'', md)] else []))]"
  by (simp only: create_trace_posts build_payload_eq map_append list.map snd_conv)

text \<open>The amended C4 at a call with a one-entry metadata dict.\<close>

theorem create_trace_request_body_witness:
  "map snd (posts (snd (create_trace net_refused
        (PStr ''gpt-4'') (PStr ''hi'') (PStr ''ho'') (PInt 1) (PInt 2) (PInt 3)
        (PDict [(''user_id'', PStr ''user_12345'')]) []))) =
     [PDict [(''model'', PStr ''gpt-4''), (''input'', PStr ''hi''), (''output'', PStr ''ho''),
                         (''prompt_tokens'', PInt 1), (''output_tokens'', PInt 2), (''duration'', PInt 3),
             (''metadata'', PDict [(''user_id'', PStr ''user_12345'')])]]"
  using create_trace_request_body
          [of net_refused "PStr ''gpt-4''" "PStr ''hi''" "PStr ''ho''" "PInt 1" "PInt 2" "PInt 3"
              "PDict [(''user_id'', PStr ''user_12345'')]" "[]"]
  by simp

text \<open>
  C4 as stated fails: the empty dict is a metadata argument that is provided (it is not
  \<open>None\<close>), and the body sent has no \<open>metadata\<close> key.
\<close>

theorem build_payload_metadata_counterexample:
  "PDict [] \<noteq> PNone
   \<and> map_of (build_payload (PStr ''gpt-4'') (PStr ''hi'') (PStr ''ho'') (PInt 1) (PInt 2) (PInt 3) (PDict []))
        ''metadata'' = None
   \<and> posts (snd (create_trace net_refused
        (PStr ''gpt-4'') (PStr ''hi'') (PStr ''ho'') (PInt 1) (PInt 2) (PInt 3) (PDict []) [])) =
       [(API_URL, PDict [(''model'', PStr ''gpt-4''), (''input'', PStr ''hi''), (''output'', PStr ''ho''),
                         (''prompt_tokens'', PInt 1), (''output_tokens'', PInt 2), (''duration'', PInt 3)])]"
  by (simp add: create_trace_def create_trace_try_def build_payload_def net_refused_def)

text \<open>
  C7. \<^verbatim>\<open>create_trace\<close> checks nothing: whatever the arguments are, the first thing it does
  is the POST of the payload built from them, with the token counts bound as given; and two
  calls that get the same answer from the network return the same value and print the same
  lines, whatever their arguments.
\<close>

theorem create_trace_no_local_validation:
  "(\<exists>rest. snd (create_trace net m i out pt ot d md tr) =
       tr @ Post API_URL (PDict (build_payload m i out pt ot d md)) # rest)
   \<and> map_of (build_payload m i out pt ot d md) ''prompt_tokens'' = Some pt
   \<and> map_of (build_payload m i out pt ot d md) ''output_tokens'' = Some ot
   \<and> (net tr API_URL (PDict (build_payload m i out pt ot d md)) =
        net' tr API_URL (PDict (build_payload m' i' out' pt' ot' d' md')) \<longrightarrow>
      fst (create_trace net m i out pt ot d md tr) = fst (create_trace net' m' i' out' pt' ot' d' md' tr)
      \<and> prints (snd (create_trace net m i out pt ot d md tr)) =
         prints (snd (create_trace net' m' i' out' pt' ot' d' md' tr)))"
proof -
  have "\<exists>rest. snd (create_trace net m i out pt ot d md tr) =
       tr @ Post API_URL (PDict (build_payload m i out pt ot d md)) # rest"
    using create_trace_events [of net m i out pt ot d md tr] by blast
  moreover have "map_of (build_payload m i out pt ot d md) ''prompt_tokens'' = Some pt"
    by (simp add: build_payload_eq)
  moreover have "map_of (build_payload m i out pt ot d md) ''output_tokens'' = Some ot"
    by (simp add: build_payload_eq)
  ultimately show ?thesis
    using create_trace_depends_on_answer [of net tr m i out pt ot d md net' m' i' out' pt' ot' d' md']
    by blast
qed

text \<open>C7 at negative token counts, against the same call with positive ones.\<close>

theorem create_trace_no_local_validation_witness:
  "fst (create_trace net_refused (PStr ''gpt-4'') (PStr ''hi'') (PStr ''ho'') (PInt (- 5)) (PInt (- 1)) (PInt 3) PNone [])
     = fst (create_trace net_refused (PStr ''gpt-4'') (PStr ''hi'') (PStr ''ho'') (PInt 5) (PInt 1) (PInt 3) PNone [])
   \<and> map_of (build_payload (PStr ''gpt-4'') (PStr ''hi'') (PStr ''ho'') (PInt (- 5)) (PInt (- 1)) (PInt 3) PNone)
        ''prompt_tokens'' = Some (PInt (- 5))
   \<and> (\<exists>rest. snd (create_trace net_refused (PStr ''gpt-4'') (PStr ''hi'') (PStr ''ho'') (PInt (- 5)) (PInt (- 1)) (PInt 3) PNone []) =
        Post API_URL (PDict [(''model'', PStr ''gpt-4''), (''input'', PStr ''hi''), (''output'', PStr ''ho''),
             (''prompt_tokens'', PInt (- 5)), (''output_tokens'', PInt (- 1)), (''duration'', PInt 3)]) # rest)"
  using create_trace_no_local_validation
          [of net_refused "PStr ''gpt-4''" "PStr ''hi''" "PStr ''ho''" "PInt (- 5)" "PInt (- 1)" "PInt 3" PNone "[]"
              net_refused "PStr ''gpt-4''" "PStr ''hi''" "PStr ''ho''" "PInt 5" "PInt 1" "PInt 3" PNone]
  by (simp add: net_refused_def build_payload_def)

text \<open>
  C8. Every call of \<^verbatim>\<open>create_trace\<close> calls \<^verbatim>\<open>requests.post\<close> exactly once, whatever the
  network answers: the POST of this call's payload is issued during the call, and no other.
\<close>

theorem create_trace_one_post:
  "length (posts (snd (create_trace net m i out pt ot d md tr))) = Suc (length (posts tr))
   \<and> (\<exists>rest. snd (create_trace net m i out pt ot d md tr) =
          tr @ Post API_URL (PDict (build_payload m i out pt ot d md)) # rest \<and> posts rest = [])"
  using create_trace_events [of net m i out pt ot d md tr]
  by (simp add: create_trace_posts)

text \<open>C8 at a refused connection and at a successful answer.\<close>

theorem create_trace_one_post_witness:
  "length (posts (snd (create_trace net_refused
      (PStr ''gpt-4'') (PStr ''hi'') (PStr ''ho'') (PInt 1) (PInt 2) (PInt 3) PNone []))) = 1
   \<and> length (posts (snd (create_trace (net_answer 200 (Inr (PDict [(''id'', PInt 7)])))
      (PStr ''gpt-4'') (PStr ''hi'') (PStr ''ho'') (PInt 1) (PInt 2) (PInt 3) PNone []))) = 1"
  using create_trace_one_post
          [of net_refused "PStr ''gpt-4''" "PStr ''hi''" "PStr ''ho''" "PInt 1" "PInt 2" "PInt 3" PNone "[]"]
        create_trace_one_post
          [of "net_answer 200 (Inr (PDict [(''id'', PInt 7)]))"
              "PStr ''gpt-4''" "PStr ''hi''" "PStr ''ho''" "PInt 1" "PInt 2" "PInt 3" PNone "[]"]
  by simp

text \<open>
  C9. For a falsy metadata argument (such as the empty dict) the body that \<^verbatim>\<open>create_trace\<close>
  posts is the dict of the six keys alone, with no \<open>metadata\<close> key: the same body, and the
  same whole call, as for \<open>None\<close>. Only for a truthy metadata argument does the posted body
  end with the key \<open>metadata\<close>, bound to that argument.
\<close>

theorem falsy_metadata_omitted:
  "(\<not> truthy md \<longrightarrow>
      posts (snd (create_trace net m i out pt ot d md tr)) =
        posts tr @ [(API_URL, PDict [(''model'', m), (''input'', i), (''output'', out),
                                     (''prompt_tokens'', pt), (''output_tokens'', ot), (''duration'', d)])]
      \<and> posts (snd (create_trace net m i out pt ot d md tr)) =
         posts (snd (create_trace net m i out pt ot d PNone tr))
      \<and> build_payload m i out pt ot d md = build_payload m i out pt ot d PNone
      \<and> map_of (build_payload m i out pt ot d md) ''metadata'' = None
      \<and> create_trace net m i out pt ot d md tr = create_trace net m i out pt ot d PNone tr)
   \<and> (truthy md \<longrightarrow>
      posts (snd (create_trace net m i out pt ot d md tr)) =
        posts tr @ [(API_URL, PDict [(''model'', m), (''input'', i), (''output'', out),
                                     (''prompt_tokens'', pt), (''output_tokens'', ot), (''duration'', d),
                                     (''metadata'', md)])]
      \<and> map_of (build_payload m i out pt ot d md) ''metadata'' = Some md)"
proof -
  have sent: "posts (snd (create_trace net m i out pt ot d md tr)) =
                posts tr @ [(API_URL, PDict (build_payload m i out pt ot d md))]"
    by (rule create_trace_posts)
  have none: "posts (snd (create_trace net m i out pt ot d PNone tr)) =
                posts tr @ [(API_URL, PDict (build_payload m i out pt ot d PNone))]"
    by (rule create_trace_posts)
  have falsy: "\<not> truthy md \<Longrightarrow> build_payload m i out pt ot d md = build_payload m i out pt ot d PNone"
    by (simp add: build_payload_eq)
  have call: "\<not> truthy md \<Longrightarrow>
      create_trace net m i out pt ot d md tr = create_trace net m i out pt ot d PNone tr"
    using falsy by (simp add: create_trace_def)
  show ?thesis
    using falsy call
    by (simp add: sent none build_payload_eq)
qed

text \<open>C9 at the empty dict and at a one-entry dict: the bodies posted.\<close>

theorem falsy_metadata_omitted_witness:
  "\<not> truthy (PDict [])
   \<and> posts (snd (create_trace net_refused (PStr ''gpt-4'') (PStr ''hi'') (PStr ''ho'') (PInt 1) (PInt 2) (PInt 3) (PDict []) [])) =
       [(API_URL, PDict [(''model'', PStr ''gpt-4''), (''input'', PStr ''hi''), (''output'', PStr ''ho''),
                         (''prompt_tokens'', PInt 1), (''output_tokens'', PInt 2), (''duration'', PInt 3)])]
   \<and> posts (snd (create_trace net_refused (PStr ''gpt-4'') (PStr ''hi'') (PStr ''ho'') (PInt 1) (PInt 2) (PInt 3) (PDict []) [])) =
       posts (snd (create_trace net_refused (PStr ''gpt-4'') (PStr ''hi'') (PStr ''ho'') (PInt 1) (PInt 2) (PInt 3) PNone []))
   \<and> build_payload (PStr ''gpt-4'') (PStr ''hi'') (PStr ''ho'') (PInt 1) (PInt 2) (PInt 3) (PDict []) =
       build_payload (PStr ''gpt-4'') (PStr ''hi'') (PStr ''ho'') (PInt 1) (PInt 2) (PInt 3) PNone
   \<and> truthy (PDict [(''user_id'', PStr ''user_12345'')])
   \<and> posts (snd (create_trace net_refused (PStr ''gpt-4'') (PStr ''hi'') (PStr ''ho'') (PInt 1) (PInt 2) (PInt 3)
                     (PDict [(''user_id'', PStr ''user_12345'')]) [])) =
       [(API_URL, PDict [(''model'', PStr ''gpt-4''), (''input'', PStr ''hi''), (''output'', PStr ''ho''),
                         (''prompt_tokens'', PInt 1), (''output_tokens'', PInt 2), (''duration'', PInt 3),
                         (''metadata'', PDict [(''user_id'', PStr ''user_12345'')])])]
   \<and> map_of (build_payload (PStr ''gpt-4'') (PStr ''hi'') (PStr ''ho'') (PInt 1) (PInt 2) (PInt 3)
                (PDict [(''user_id'', PStr ''user_12345'')])) ''metadata'' =
       Some (PDict [(''user_id'', PStr ''user_12345'')])"
proof -
  have f: "\<not> truthy (PDict [])" by simp
  have t: "truthy (PDict [(''user_id'', PStr ''user_12345'')])" by simp
  note F = falsy_metadata_omitted
          [of "PDict []" net_refused "PStr ''gpt-4''" "PStr ''hi''" "PStr ''ho''" "PInt 1" "PInt 2" "PInt 3" "[]",
           THEN conjunct1, rule_format, OF f]
  note T = falsy_metadata_omitted
          [of "PDict [(''user_id'', PStr ''user_12345'')]" net_refused
              "PStr ''gpt-4''" "PStr ''hi''" "PStr ''ho''" "PInt 1" "PInt 2" "PInt 3" "[]",
           THEN conjunct2, rule_format, OF t]
  from F have "posts (snd (create_trace net_refused (PStr ''gpt-4'') (PStr ''hi'') (PStr ''ho'') (PInt 1) (PInt 2) (PInt 3) (PDict []) [])) =
       posts [] @ [(API_URL, PDict [(''model'', PStr ''gpt-4''), (''input'', PStr ''hi''), (''output'', PStr ''ho''),
                         (''prompt_tokens'', PInt 1), (''output_tokens'', PInt 2), (''duration'', PInt 3)])]"
    by blast
  then have F1: "posts (snd (create_trace net_refused (PStr ''gpt-4'') (PStr ''hi'') (PStr ''ho'') (PInt 1) (PInt 2) (PInt 3) (PDict []) [])) =
       [(API_URL, PDict [(''model'', PStr ''gpt-4''), (''input'', PStr ''hi''), (''output'', PStr ''ho''),
                         (''prompt_tokens'', PInt 1), (''output_tokens'', PInt 2), (''duration'', PInt 3)])]"
    by simp
  from F have F2: "posts (snd (create_trace net_refused (PStr ''gpt-4'') (PStr ''hi'') (PStr ''ho'') (PInt 1) (PInt 2) (PInt 3) (PDict []) [])) =
       posts (snd (create_trace net_refused (PStr ''gpt-4'') (PStr ''hi'') (PStr ''ho'') (PInt 1) (PInt 2) (PInt 3) PNone []))"
    by blast
  from F have F3: "build_payload (PStr ''gpt-4'') (PStr ''hi'') (PStr ''ho'') (PInt 1) (PInt 2) (PInt 3) (PDict []) =
       build_payload (PStr ''gpt-4'') (PStr ''hi'') (PStr ''ho'') (PInt 1) (PInt 2) (PInt 3) PNone"
    by blast
  from T have "posts (snd (create_trace net_refused (PStr ''gpt-4'') (PStr ''hi'') (PStr ''ho'') (PInt 1) (PInt 2) (PInt 3)
                     (PDict [(''user_id'', PStr ''user_12345'')]) [])) =
       posts [] @ [(API_URL, PDict [(''model'', PStr ''gpt-4''), (''input'', PStr ''hi''), (''output'', PStr ''ho''),
                         (''prompt_tokens'', PInt 1), (''output_tokens'', PInt 2), (''duration'', PInt 3),
                         (''metadata'', PDict [(''user_id'', PStr ''user_12345'')])])]"
    by blast
  then have T1: "posts (snd (create_trace net_refused (PStr ''gpt-4'') (PStr ''hi'') (PStr ''ho'') (PInt 1) (PInt 2) (PInt 3)
                     (PDict [(''user_id'', PStr ''user_12345'')]) [])) =
       [(API_URL, PDict [(''model'', PStr ''gpt-4''), (''input'', PStr ''hi''), (''output'', PStr ''ho''),
                         (''prompt_tokens'', PInt 1), (''output_tokens'', PInt 2), (''duration'', PInt 3),
                         (''metadata'', PDict [(''user_id'', PStr ''user_12345'')])])]"
    by simp
  from T have T2: "map_of (build_payload (PStr ''gpt-4'') (PStr ''hi'') (PStr ''ho'') (PInt 1) (PInt 2) (PInt 3)
                (PDict [(''user_id'', PStr ''user_12345'')])) ''metadata'' =
       Some (PDict [(''user_id'', PStr ''user_12345'')])"
    by blast
  from f t F1 F2 F3 T1 T2 show ?thesis
    by blast
qed

section \<open>Properties of \<^verbatim>\<open>main\<close> of \<^verbatim>\<open>client.py\<close>\<close>

lemma create_trace_returns:
  assumes "\<forall>payload tr. case fst (create_trace_try net payload tr) of
                           Inl e \<Rightarrow> is_RequestException e | Inr v \<Rightarrow> True"
  shows "\<exists>v. fst (create_trace net m i out pt ot d md tr) = Inr v"
proof -
  let ?p = "build_payload m i out pt ot d md"
  from assms have h:
    "case fst (create_trace_try net ?p tr) of Inl e \<Rightarrow> is_RequestException e | Inr v \<Rightarrow> True"
    by blast
  show ?thesis
  proof (cases "create_trace_try net ?p tr")
    case (Pair res tr')
    with h show ?thesis
      by (cases res) (simp_all add: create_trace_def)
  qed
qed

lemma main_loop_posts:
  assumes "\<forall>payload tr. case fst (create_trace_try net payload tr) of
                           Inl e \<Rightarrow> is_RequestException e | Inr v \<Rightarrow> True"
  shows "fst (main_loop net models tr) = Inr ()
         \<and> posts (snd (main_loop net models tr)) =
            posts tr @ map (\<lambda>model. (API_URL, PDict (build_payload (PStr model)
                 (PStr (''Test prompt for '' @ model)) (PStr (''Test response from '' @ model))
                 (PInt 10) (PInt 25) (PInt 800) PNone))) models"
proof (induction models arbitrary: tr)
  case Nil
  show ?case by simp
next
  case (Cons model models)
  let ?c = "create_trace net (PStr model) (PStr (''Test prompt for '' @ model))
              (PStr (''Test response from '' @ model)) (PInt 10) (PInt 25) (PInt 800) PNone tr"
  obtain v where v: "fst ?c = Inr v"
    using create_trace_returns [OF assms] by blast
  then have c: "?c = (Inr v, snd ?c)"
    by (metis prod.collapse)
  have p: "posts (snd ?c) = posts tr @ [(API_URL, PDict (build_payload (PStr model)
                 (PStr (''Test prompt for '' @ model)) (PStr (''Test response from '' @ model))
                 (PInt 10) (PInt 25) (PInt 800) PNone))]"
    by (rule create_trace_posts)
  have step: "main_loop net (model # models) tr = main_loop net models (snd ?c @ [Sleep float_0_1])"
    by (subst main_loop.simps(2), subst c) (simp add: sleep_def)
  show ?case
    unfolding step
    using Cons.IH [of "snd ?c @ [Sleep float_0_1]"] p
    by (simp add: posts_append)
qed

lemma net_refused_only_RequestException:
  "\<forall>payload tr. case fst (create_trace_try net_refused payload tr) of
                  Inl e \<Rightarrow> is_RequestException e | Inr v \<Rightarrow> True"
  by (simp add: create_trace_try_def net_refused_def)

text \<open>
  C10. When the only exceptions of the \<^verbatim>\<open>try\<close> body of \<^verbatim>\<open>create_trace\<close> are
  \<open>RequestException\<close>s (so every failure is a failed submission), \<^verbatim>\<open>main\<close> runs to its end
  and has issued all five POSTs, in the order of the source, whichever of them failed.
\<close>

theorem client_main_attempts_all_five:
  assumes "\<forall>payload tr. case fst (create_trace_try net payload tr) of
                           Inl e \<Rightarrow> is_RequestException e | Inr v \<Rightarrow> True"
  shows "fst (client_main net tr) = Inr ()
         \<and> map snd (posts (snd (client_main net tr))) =
            map snd (posts tr) @
            [PDict [(''model'', PStr ''gpt-4''),
                    (''input'', PStr ''What is machine learning?''),
                    (''output'', PStr ''Machine learning is a subset of artificial intelligence...''),
                    (''prompt_tokens'', PInt 15), (''output_tokens'', PInt 45), (''duration'', PInt 1200)],
             PDict [(''model'', PStr ''claude-3-opus''),
                    (''input'', PStr ''Explain quantum computing in simple terms''),
                    (''output'', PStr ''Quantum computing uses quantum mechanics principles...''),
                    (''prompt_tokens'', PInt 20), (''output_tokens'', PInt 60), (''duration'', PInt 1500),
                    (''metadata'', PDict [(''user_id'', PStr ''user_12345''),
                                          (''session_id'', PStr ''session_abc''),
                                          (''temperature'', PFloat float_0_7),
                                          (''max_tokens'', PInt 100)])],
             PDict [(''model'', PStr ''gpt-3.5-turbo''),
                    (''input'', PStr ''Test prompt for gpt-3.5-turbo''),
                    (''output'', PStr ''Test response from gpt-3.5-turbo''),
                    (''prompt_tokens'', PInt 10), (''output_tokens'', PInt 25), (''duration'', PInt 800)],
             PDict [(''model'', PStr ''gpt-4''),
                    (''input'', PStr ''Test prompt for gpt-4''),
                    (''output'', PStr ''Test response from gpt-4''),
                    (''prompt_tokens'', PInt 10), (''output_tokens'', PInt 25), (''duration'', PInt 800)],
             PDict [(''model'', PStr ''claude-3-sonnet''),
                    (''input'', PStr ''Test prompt for claude-3-sonnet''),
                    (''output'', PStr ''Test response from claude-3-sonnet''),
                    (''prompt_tokens'', PInt 10), (''output_tokens'', PInt 25), (''duration'', PInt 800)]]"
proof -
  let ?c1 = "create_trace net (PStr ''gpt-4'') (PStr ''What is machine learning?'')
               (PStr ''Machine learning is a subset of artificial intelligence...'')
               (PInt 15) (PInt 45) (PInt 1200) PNone tr"
  let ?md = "PDict [(''user_id'', PStr ''user_12345''), (''session_id'', PStr ''session_abc''),
                    (''temperature'', PFloat float_0_7), (''max_tokens'', PInt 100)]"
  let ?c2 = "create_trace net (PStr ''claude-3-opus'') (PStr ''Explain quantum computing in simple terms'')
               (PStr ''Quantum computing uses quantum mechanics principles...'')
               (PInt 20) (PInt 60) (PInt 1500) ?md (snd ?c1)"
  obtain v1 where "fst ?c1 = Inr v1"
    using create_trace_returns [OF assms] by blast
  then have c1: "?c1 = (Inr v1, snd ?c1)"
    by (metis prod.collapse)
  obtain v2 where "fst ?c2 = Inr v2"
    using create_trace_returns [OF assms] by blast
  then have c2: "?c2 = (Inr v2, snd ?c2)"
    by (metis prod.collapse)
  have main: "client_main net tr =
                main_loop net [''gpt-3.5-turbo'', ''gpt-4'', ''claude-3-sonnet''] (snd ?c2)"
    unfolding client_main_def
    by (subst c1, simp only: prod.case sum.case, subst c2, simp only: prod.case sum.case)
  have p2: "posts (snd ?c2) =
      (posts tr @ [(API_URL, PDict (build_payload (PStr ''gpt-4'') (PStr ''What is machine learning?'')
               (PStr ''Machine learning is a subset of artificial intelligence...'')
               (PInt 15) (PInt 45) (PInt 1200) PNone))])
      @ [(API_URL, PDict (build_payload (PStr ''claude-3-opus'')
               (PStr ''Explain quantum computing in simple terms'')
               (PStr ''Quantum computing uses quantum mechanics principles...'')
               (PInt 20) (PInt 60) (PInt 1500) ?md))]"
    by (simp only: create_trace_posts)
  show ?thesis
    unfolding main
    using main_loop_posts [OF assms, of "[''gpt-3.5-turbo'', ''gpt-4'', ''claude-3-sonnet'']" "snd ?c2"]
    by (simp add: p2 build_payload_eq)
qed

text \<open>C10 on the network that refuses every connection: all five submissions fail.\<close>

theorem client_main_attempts_all_five_witness:
  "(\<forall>payload tr. case fst (create_trace_try net_refused payload tr) of
                    Inl e \<Rightarrow> is_RequestException e | Inr v \<Rightarrow> True)
   \<and> fst (client_main net_refused []) = Inr ()
   \<and> map (\<lambda>p. subscript p ''model'') (map snd (posts (snd (client_main net_refused [])))) =
       [Inr (PStr ''gpt-4''), Inr (PStr ''claude-3-opus''), Inr (PStr ''gpt-3.5-turbo''),
        Inr (PStr ''gpt-4''), Inr (PStr ''claude-3-sonnet'')]"
  using client_main_attempts_all_five [OF net_refused_only_RequestException, of "[]"]
        net_refused_only_RequestException
  by simp

section \<open>Properties of the OTel scripts\<close>

lemma extends_with_call: "P (Did a) \<Longrightarrow> extends_with P (call sdk a)"
  by (simp add: extends_with_def call_def split: option.splits)

lemma extends_with_print: "P (Print l) \<Longrightarrow> extends_with P (py_print l)"
  by (simp add: extends_with_def py_print_def)

lemma extends_with_sleep: "P (Sleep s) \<Longrightarrow> extends_with P (sleep s)"
  by (simp add: extends_with_def sleep_def)

lemma extends_with_print_exc: "P (Print_exc e) \<Longrightarrow> extends_with P (print_exc e)"
  by (simp add: extends_with_def print_exc_def)

lemma extends_with_exit: "extends_with P (py_exit n)"
  by (simp add: extends_with_def py_exit_def)

lemma extends_with_block: "list_all (extends_with P) ss \<Longrightarrow> extends_with P (block ss)"
proof (induction ss)
  case Nil
  show ?case by (simp add: extends_with_def)
next
  case (Cons s ss)
  then have s: "extends_with P s" and ss: "extends_with P (block ss)"
    by simp_all
  show ?case
    unfolding extends_with_def
  proof
    fix tr
    obtain n1 where n1: "snd (s tr) = tr @ n1" "list_all P n1"
      using s unfolding extends_with_def by blast
    obtain n2 where n2: "snd (block ss (snd (s tr))) = snd (s tr) @ n2" "list_all P n2"
      using ss unfolding extends_with_def by blast
    show "\<exists>new. snd (block (s # ss) tr) = tr @ new \<and> list_all P new"
    proof (cases "s tr")
      case (Pair res tr')
      show ?thesis
      proof (cases res)
        case (Inl e)
        with Pair n1 show ?thesis by auto
      next
        case (Inr u)
        with Pair n1 n2 have "snd (block (s # ss) tr) = tr @ (n1 @ n2)" by simp
        moreover have "list_all P (n1 @ n2)" using n1 n2 by simp
        ultimately show ?thesis by blast
      qed
    qed
  qed
qed

lemma extends_with_with_span:
  assumes "P (Did (Span_enter name))" and "\<And>x. P (Did (Span_exit name x))" and "extends_with P body"
  shows "extends_with P (with_span sdk name body)"
  unfolding extends_with_def
proof
  fix tr
  obtain nb where nb: "snd (body (tr @ [Did (Span_enter name)])) = tr @ [Did (Span_enter name)] @ nb"
      "list_all P nb"
    using assms(3) unfolding extends_with_def by (metis append.assoc)
  show "\<exists>new. snd (with_span sdk name body tr) = tr @ new \<and> list_all P new"
  proof (cases "body (tr @ [Did (Span_enter name)])")
    case (Pair res tr')
    with nb have tr': "tr' = tr @ [Did (Span_enter name)] @ nb" by simp
    show ?thesis
      using Pair tr' nb(2) assms(1,2)
      by (cases res) (auto simp: with_span_def call_def split: option.splits)
  qed
qed

lemma extends_with_try:
  assumes "extends_with P body" and "\<And>e. extends_with P (handler e)"
  shows "extends_with P (try_except_Exception body handler)"
  unfolding extends_with_def
proof
  fix tr
  obtain n1 where n1: "snd (body tr) = tr @ n1" "list_all P n1"
    using assms(1) unfolding extends_with_def by blast
  show "\<exists>new. snd (try_except_Exception body handler tr) = tr @ new \<and> list_all P new"
  proof (cases "body tr")
    case (Pair res tr')
    with n1 have tr': "tr' = tr @ n1" by simp
    show ?thesis
    proof (cases res)
      case (Inr u)
      with Pair tr' n1 show ?thesis by (auto simp: try_except_Exception_def)
    next
      case (Inl e)
      obtain n2 where n2: "snd (handler e tr') = tr' @ n2" "list_all P n2"
        using assms(2) unfolding extends_with_def by blast
      have "list_all P (n1 @ n2)" using n1 n2 by simp
      with Inl Pair tr' n1 n2 show ?thesis
        by (auto simp: try_except_Exception_def)
    qed
  qed
qed

lemma exporter_endpoints_append:
  "exporter_endpoints (xs @ ys) = exporter_endpoints xs @ exporter_endpoints ys"
  by (induction xs rule: exporter_endpoints.induct) simp_all

lemma exports_to_endpoints: "list_all (exports_to u) new \<Longrightarrow> set (exporter_endpoints new) \<subseteq> {u}"
  by (induction new rule: exporter_endpoints.induct) auto

lemmas extends_with_intros =
  extends_with_call extends_with_print extends_with_sleep extends_with_print_exc extends_with_exit
  extends_with_block extends_with_with_span extends_with_try

lemmas otel_defs = otel_client_main_def otel_client_run_def otel_client_handler_def init_tracer_def
    simple_trace_example_def nested_trace_example_def gen_ai_trace_example_def
    trace_with_events_example_def

lemma otlp_client_main_exports:
  "extends_with (exports_to (getenv env ''OTLP_ENDPOINT'' ''http://localhost:8080/v1/traces''))
     (otlp_client_main env sdk)"
  unfolding otlp_client_main_def otlp_client_examples_def otlp_client_shutdown_def Let_def
  by (simp add: extends_with_intros)

lemma otel_client_main_exports:
  "extends_with (exports_to OTLP_ENDPOINT) (otel_client_main sdk)"
  unfolding otel_client_main_def otel_client_run_def otel_client_handler_def init_tracer_def
    simple_trace_example_def nested_trace_example_def gen_ai_trace_example_def
    trace_with_events_example_def
  by (simp add: extends_with_intros)

lemmas otlp_defs = otlp_client_main_def otlp_client_examples_def otlp_client_shutdown_def

lemmas prim_defs = call_def py_print_def sleep_def with_span_def try_except_Exception_def
   print_exc_def py_exit_def

lemma otlp_ok_endpoints:
  "exporter_endpoints (snd (otlp_client_main env sdk_ok [])) =
     [getenv env ''OTLP_ENDPOINT'' ''http://localhost:8080/v1/traces'']"
  by (simp add: otlp_defs prim_defs sdk_ok_def Let_def)

lemma otel_ok_endpoints:
  "exporter_endpoints (snd (otel_client_main sdk_ok [])) = [OTLP_ENDPOINT]"
  by (simp add: otel_defs prim_defs sdk_ok_def)

text \<open>
  C5, as amended. In \<^verbatim>\<open>python_otlp_client.py\<close> every exporter is given the value of
  \<^verbatim>\<open>OTLP_ENDPOINT\<close> when the variable is set and \<^verbatim>\<open>http://localhost:8080/v1/traces\<close>
  otherwise. In \<^verbatim>\<open>otel-client.py\<close> every exporter is given the constant
  \<^verbatim>\<open>http://localhost:8080/v1/traces\<close>, whatever the environment holds. With an SDK that
  does not raise, each script creates exactly one exporter.
\<close>

theorem exporter_endpoint_per_script:
  "(\<exists>new. snd (otlp_client_script env sdk tr) = tr @ new
          \<and> set (exporter_endpoints new) \<subseteq> {getenv env ''OTLP_ENDPOINT'' ''http://localhost:8080/v1/traces''})
   \<and> exporter_endpoints (snd (otlp_client_script env sdk_ok [])) =
       [getenv env ''OTLP_ENDPOINT'' ''http://localhost:8080/v1/traces'']
   \<and> (env ''OTLP_ENDPOINT'' = Some u \<longrightarrow> getenv env ''OTLP_ENDPOINT'' ''http://localhost:8080/v1/traces'' = u)
   \<and> (env ''OTLP_ENDPOINT'' = None \<longrightarrow>
        getenv env ''OTLP_ENDPOINT'' ''http://localhost:8080/v1/traces'' = ''http://localhost:8080/v1/traces'')
   \<and> (\<exists>new. snd (otel_client_script env sdk tr) = tr @ new
          \<and> set (exporter_endpoints new) \<subseteq> {''http://localhost:8080/v1/traces''})
   \<and> exporter_endpoints (snd (otel_client_script env sdk_ok [])) = [''http://localhost:8080/v1/traces'']"
proof -
  have "\<exists>new. snd (otlp_client_script env sdk tr) = tr @ new
          \<and> set (exporter_endpoints new) \<subseteq> {getenv env ''OTLP_ENDPOINT'' ''http://localhost:8080/v1/traces''}"
    using otlp_client_main_exports [of env sdk] exports_to_endpoints
    unfolding extends_with_def otlp_client_script_def by blast
  moreover have "\<exists>new. snd (otel_client_script env sdk tr) = tr @ new
          \<and> set (exporter_endpoints new) \<subseteq> {''http://localhost:8080/v1/traces''}"
    using otel_client_main_exports [of sdk] exports_to_endpoints [of OTLP_ENDPOINT]
    unfolding extends_with_def otel_client_script_def OTLP_ENDPOINT_def by blast
  moreover have "exporter_endpoints (snd (otlp_client_script env sdk_ok [])) =
       [getenv env ''OTLP_ENDPOINT'' ''http://localhost:8080/v1/traces'']"
    unfolding otlp_client_script_def by (rule otlp_ok_endpoints)
  moreover have "exporter_endpoints (snd (otel_client_script env sdk_ok [])) = [''http://localhost:8080/v1/traces'']"
    unfolding otel_client_script_def using otel_ok_endpoints by (simp add: OTLP_ENDPOINT_def)
  ultimately show ?thesis
    by (simp add: getenv_def)
qed

text \<open>The amended C5 with the variable set, and with the variable unset.\<close>

theorem exporter_endpoint_per_script_witness:
  "env_custom ''OTLP_ENDPOINT'' = Some ''http://collector:4318/v1/traces''
   \<and> exporter_endpoints (snd (otlp_client_script env_custom sdk_ok [])) = [''http://collector:4318/v1/traces'']
   \<and> env_unset ''OTLP_ENDPOINT'' = None
   \<and> exporter_endpoints (snd (otlp_client_script env_unset sdk_ok [])) = [''http://localhost:8080/v1/traces'']
   \<and> exporter_endpoints (snd (otel_client_script env_unset sdk_ok [])) = [''http://localhost:8080/v1/traces'']"
  using exporter_endpoint_per_script [of env_custom sdk_ok "[]" "''http://collector:4318/v1/traces''"]
        exporter_endpoint_per_script [of env_unset sdk_ok "[]"]
  by (simp add: env_custom_def env_unset_def)

text \<open>
  C5 as stated fails for \<^verbatim>\<open>otel-client.py\<close>: with \<^verbatim>\<open>OTLP_ENDPOINT\<close> set to another URL,
  its exporter is still given the default.
\<close>

theorem otel_client_ignores_environment_counterexample:
  "env_custom ''OTLP_ENDPOINT'' = Some ''http://collector:4318/v1/traces''
   \<and> exporter_endpoints (snd (otel_client_script env_custom sdk_ok [])) = [''http://localhost:8080/v1/traces'']"
  using otel_ok_endpoints
  by (simp add: otel_client_script_def env_custom_def OTLP_ENDPOINT_def)

lemma otel_client_main_unfold:
  "otel_client_main sdk tr =
     try_except_Exception (otel_client_run sdk) otel_client_handler
       (tr @ [Print [Lit ''OpenTelemetry Simple Traces Example Client (Python)''],
              Print [Lit (replicate 50 (CHR ''=''))]])"
  unfolding otel_client_main_def
  by (simp add: py_print_def split: prod.splits sum.splits)

lemma otel_client_handler_eq:
  "otel_client_handler e tr =
     (Inl (SystemExit 1), tr @ [Print [Lit (ballot_x @ '' Error: ''), Fmt_exn e], Print_exc e])"
  by (simp add: otel_client_handler_def py_print_def print_exc_def py_exit_def)

text \<open>
  C6, as amended. In \<^verbatim>\<open>otel-client.py\<close> the run is inside one \<^verbatim>\<open>except Exception\<close>
  handler: when the run raises an exception derived from \<open>Exception\<close>, \<^verbatim>\<open>main\<close> prints the
  error line and the traceback and exits with status 1, and no such exception leaves
  \<^verbatim>\<open>main\<close>. \<^verbatim>\<open>python_otlp_client.py\<close> has no such handler: an exception raised by the
  set-up or by the examples leaves \<^verbatim>\<open>main\<close> as it is, and an \<open>Exception\<close> raised by the
  provider shutdown is answered by a warning, after which \<^verbatim>\<open>main\<close> prints its closing lines
  and returns normally.
\<close>

theorem catch_all_per_script:
  "(otel_client_run sdk
       (tr @ [Print [Lit ''OpenTelemetry Simple Traces Example Client (Python)''],
              Print [Lit (replicate 50 (CHR ''=''))]]) = (Inl e, tr')
     \<and> is_Exception e \<longrightarrow>
      otel_client_main sdk tr =
        (Inl (SystemExit 1), tr' @ [Print [Lit (ballot_x @ '' Error: ''), Fmt_exn e], Print_exc e]))
   \<and> (\<forall>e' tr''. otel_client_main sdk tr = (Inl e', tr'') \<longrightarrow> \<not> is_Exception e')
   \<and> (otlp_client_examples env sdk tr = (Inl e, tr') \<longrightarrow> otlp_client_main env sdk tr = (Inl e, tr'))
   \<and> (otlp_client_examples env sdk tr = (Inr (), tr')
       \<and> sdk (tr' @ [Print [Lit (CHR 0x0A # ''Shutting down tracer provider...'')]]) Get_tracer_provider = None
       \<and> sdk (tr' @ [Print [Lit (CHR 0x0A # ''Shutting down tracer provider...'')], Did Get_tracer_provider])
            Shutdown = Some e
       \<and> is_Exception e \<longrightarrow>
      otlp_client_main env sdk tr =
        (Inr (),
         tr' @ [Print [Lit (CHR 0x0A # ''Shutting down tracer provider...'')],
                Did Get_tracer_provider,
                Did Shutdown,
                Print [Lit (warning_sign @ '' Warning: Error during shutdown: ''), Fmt_exn e],
                Print [Lit ''  Some traces may not have been fully exported''],
                Print [Lit (CHR 0x0A # check_button @ '' All traces sent successfully!'')],
                Print [Lit ''View them at: http://localhost:8080'']]))"
proof -
  have a: "otel_client_run sdk
       (tr @ [Print [Lit ''OpenTelemetry Simple Traces Example Client (Python)''],
              Print [Lit (replicate 50 (CHR ''=''))]]) = (Inl e, tr')
     \<and> is_Exception e \<longrightarrow>
      otel_client_main sdk tr =
        (Inl (SystemExit 1), tr' @ [Print [Lit (ballot_x @ '' Error: ''), Fmt_exn e], Print_exc e])"
    by (simp only: otel_client_main_unfold) (simp add: try_except_Exception_def otel_client_handler_eq)
  have b: "\<forall>e' tr''. otel_client_main sdk tr = (Inl e', tr'') \<longrightarrow> \<not> is_Exception e'"
    by (simp only: otel_client_main_unfold)
       (auto simp: try_except_Exception_def otel_client_handler_eq split: prod.splits sum.splits if_splits)
  have c: "otlp_client_examples env sdk tr = (Inl e, tr') \<longrightarrow> otlp_client_main env sdk tr = (Inl e, tr')"
    by (simp add: otlp_client_main_def)
  have d: "otlp_client_examples env sdk tr = (Inr (), tr')
       \<and> sdk (tr' @ [Print [Lit (CHR 0x0A # ''Shutting down tracer provider...'')]]) Get_tracer_provider = None
       \<and> sdk (tr' @ [Print [Lit (CHR 0x0A # ''Shutting down tracer provider...'')], Did Get_tracer_provider])
            Shutdown = Some e
       \<and> is_Exception e \<longrightarrow>
      otlp_client_main env sdk tr =
        (Inr (),
         tr' @ [Print [Lit (CHR 0x0A # ''Shutting down tracer provider...'')],
                Did Get_tracer_provider,
                Did Shutdown,
                Print [Lit (warning_sign @ '' Warning: Error during shutdown: ''), Fmt_exn e],
                Print [Lit ''  Some traces may not have been fully exported''],
                Print [Lit (CHR 0x0A # check_button @ '' All traces sent successfully!'')],
                Print [Lit ''View them at: http://localhost:8080'']])"
    by (simp add: otlp_client_main_def otlp_client_shutdown_def prim_defs)
  from a b c d show ?thesis by blast
qed

lemma otel_exporter_fails_run:
  "otel_client_run sdk_exporter_fails
       [Print [Lit ''OpenTelemetry Simple Traces Example Client (Python)''],
        Print [Lit (replicate 50 (CHR ''=''))]] =
     (Inl (ValueError ''bad endpoint''),
      [Print [Lit ''OpenTelemetry Simple Traces Example Client (Python)''],
       Print [Lit (replicate 50 (CHR ''=''))],
       Did (Resource_create [(''service.name'', PStr SERVICE_NAME), (''service.version'', PStr ''1.0.0'')]),
       Did (OTLPSpanExporter_new OTLP_ENDPOINT (Some []))])"
  by (simp add: otel_client_run_def init_tracer_def call_def sdk_exporter_fails_def)

lemma otlp_exporter_fails_examples:
  "otlp_client_examples env_unset sdk_exporter_fails [] =
     (Inl (ValueError ''bad endpoint''),
      [Did (Resource_create [(''service.name'', PStr ''python-llm-app''), (''service.version'', PStr ''1.0.0'')]),
       Did TracerProvider_new,
       Did Set_tracer_provider,
       Did (Get_tracer ''__main__''),
       Did (OTLPSpanExporter_new ''http://localhost:8080/v1/traces'' None)])"
  by (simp add: otlp_client_examples_def call_def sdk_exporter_fails_def getenv_def env_unset_def Let_def)

lemma otlp_shutdown_fails_examples:
  "otlp_client_examples env_unset sdk_shutdown_fails [] =
     (Inr (), snd (otlp_client_examples env_unset sdk_shutdown_fails []))"
proof -
  have "fst (otlp_client_examples env_unset sdk_shutdown_fails []) = Inr ()"
    by (simp add: otlp_client_examples_def prim_defs sdk_shutdown_fails_def Let_def)
  then show ?thesis
    by (metis prod.collapse)
qed

text \<open>
  The amended C6 where the exporter constructor raises (both scripts) and where the
  provider shutdown raises (\<^verbatim>\<open>python_otlp_client.py\<close>).
\<close>

theorem catch_all_per_script_witness:
  "is_Exception (ValueError ''bad endpoint'')
   \<and> otel_client_main sdk_exporter_fails [] =
      (Inl (SystemExit 1),
       [Print [Lit ''OpenTelemetry Simple Traces Example Client (Python)''],
        Print [Lit (replicate 50 (CHR ''=''))],
        Did (Resource_create [(''service.name'', PStr SERVICE_NAME), (''service.version'', PStr ''1.0.0'')]),
        Did (OTLPSpanExporter_new OTLP_ENDPOINT (Some [])),
        Print [Lit (ballot_x @ '' Error: ''), Fmt_exn (ValueError ''bad endpoint'')],
        Print_exc (ValueError ''bad endpoint'')])
   \<and> otlp_client_main env_unset sdk_exporter_fails [] =
      (Inl (ValueError ''bad endpoint''),
       [Did (Resource_create [(''service.name'', PStr ''python-llm-app''), (''service.version'', PStr ''1.0.0'')]),
        Did TracerProvider_new,
        Did Set_tracer_provider,
        Did (Get_tracer ''__main__''),
        Did (OTLPSpanExporter_new ''http://localhost:8080/v1/traces'' None)])
   \<and> is_Exception (RuntimeError ''export failed'')
   \<and> otlp_client_main env_unset sdk_shutdown_fails [] =
      (Inr (),
       snd (otlp_client_examples env_unset sdk_shutdown_fails []) @
       [Print [Lit (CHR 0x0A # ''Shutting down tracer provider...'')],
        Did Get_tracer_provider,
        Did Shutdown,
        Print [Lit (warning_sign @ '' Warning: Error during shutdown: ''),
               Fmt_exn (RuntimeError ''export failed'')],
        Print [Lit ''  Some traces may not have been fully exported''],
        Print [Lit (CHR 0x0A # check_button @ '' All traces sent successfully!'')],
        Print [Lit ''View them at: http://localhost:8080'']])"
  using catch_all_per_script [of sdk_exporter_fails "[]" "ValueError ''bad endpoint''" _ env_unset]
        catch_all_per_script [of sdk_exporter_fails "[]" "ValueError ''bad endpoint''"
          "[Did (Resource_create [(''service.name'', PStr ''python-llm-app''), (''service.version'', PStr ''1.0.0'')]),
            Did TracerProvider_new,
            Did Set_tracer_provider,
            Did (Get_tracer ''__main__''),
            Did (OTLPSpanExporter_new ''http://localhost:8080/v1/traces'' None)]" env_unset]
        catch_all_per_script [of sdk_shutdown_fails "[]" "RuntimeError ''export failed''"
          "snd (otlp_client_examples env_unset sdk_shutdown_fails [])" env_unset]
        otel_exporter_fails_run otlp_exporter_fails_examples otlp_shutdown_fails_examples
  by (simp add: sdk_shutdown_fails_def)

text \<open>
  C6 as stated fails for \<^verbatim>\<open>python_otlp_client.py\<close>. When the provider shutdown raises an
  \<open>Exception\<close>, the script prints no traceback and returns normally (exit status 0); when the
  exporter constructor raises one, the exception leaves \<^verbatim>\<open>main\<close> with no handler having
  run.
\<close>

theorem otlp_client_no_catch_all_counterexample:
  "is_Exception (RuntimeError ''export failed'')
   \<and> sdk_shutdown_fails [] Shutdown = Some (RuntimeError ''export failed'')
   \<and> Did Shutdown \<in> set (snd (otlp_client_main env_unset sdk_shutdown_fails []))
   \<and> fst (otlp_client_main env_unset sdk_shutdown_fails []) = Inr ()
   \<and> tracebacks (snd (otlp_client_main env_unset sdk_shutdown_fails [])) = []
   \<and> is_Exception (ValueError ''bad endpoint'')
   \<and> fst (otlp_client_main env_unset sdk_exporter_fails []) = Inl (ValueError ''bad endpoint'')
   \<and> tracebacks (snd (otlp_client_main env_unset sdk_exporter_fails [])) = []"
  by (simp add: otlp_defs prim_defs sdk_shutdown_fails_def sdk_exporter_fails_def Let_def)

end
